theory Spec2Isabelle
  imports Complex_Main
begin

section \<open>Data model of \<open>main.go\<close>\<close>

text \<open>
  The event handed to the handler is a Go \<open>map[string]interface{}\<close>. The values the
  handler inspects are the ones \<open>encoding/json\<close> produces: \<open>nil\<close>, \<open>bool\<close>,
  \<open>float64\<close>, \<open>string\<close>, \<open>[]interface{}\<close> and \<open>map[string]interface{}\<close>. A Go map
  is an association list here, read with \<open>map_of\<close>. The decoder never stores a nil
  map inside a document; a nil event reads like the empty one and is the empty list.
\<close>

datatype json =
    JNull
  | JBool bool
  | JNumber real
  | JString string
  | JArray "json list"
  | JObject "(string \<times> json) list"

type_synonym json_object = "(string \<times> json) list"

text \<open>
  \<open>v, ok := m[k].(map[string]interface{})\<close>: the comma-ok type assertion. It never
  panics; on a missing key, a nil value or a value of another type \<open>ok\<close> is false.
\<close>

fun as_object :: "json option \<Rightarrow> json_object option" where
  "as_object (Some (JObject m)) = Some m"
| "as_object _ = None"

text \<open>
  \<open>s, _ := m[k].(string)\<close>: the comma-ok assertion with \<open>ok\<close> discarded. On a
  missing key or a value that is not a string, \<open>s\<close> is the zero value \<open>""\<close>.
\<close>

fun as_string :: "json option \<Rightarrow> string" where
  "as_string (Some (JString s)) = s"
| "as_string _ = ''''"

datatype logger = ProductionLogger | DevelopmentLogger

record tsnet_Server =
  AuthKey :: string

text \<open>
  \<open>http.Client\<close>: the two fields the program sets. \<open>Timeout\<close> is a
  \<open>time.Duration\<close>, a count of nanoseconds; zero means no timeout. A nil \<open>Transport\<close>
  stands for \<open>http.DefaultTransport\<close>.
\<close>

datatype http_Transport =
    NilTransport
  | InsecureSkipVerifyTransport
  | TSNetTransport

record http_Client =
  Timeout :: int
  Transport :: http_Transport

definition Second :: int where
  "Second = 1000000000"

record http_Request =
  Method :: string
  URL :: string
  Header :: "(string \<times> string) list"
  Body :: string

record http_Response =
  StatusCode :: int
  RespBody :: string

record LambdaHandler =
  BaseURL :: string
  Debug :: bool
  LongLivedToken :: string
  VerifySSL :: bool
  Logger :: logger
  TSNetServer :: "tsnet_Server option"

text \<open>
  What the program calls and does not define: the process environment, the \<open>zap\<close>
  logger constructors, \<open>tsnet.Server.HTTPClient\<close>, \<open>json.Marshal\<close>, the URL and
  method check of \<open>http.NewRequest\<close>, \<open>http.Client.Do\<close> (the backend behind it) and
  the \<open>json.Decoder\<close>. They are parameters of the model. A Go call that returns an
  error is \<open>None\<close> (or \<open>Inl\<close> with the error's text where the program prints it).
\<close>

record world =
  environ :: "(string \<times> string) list"
  zap_NewProduction :: "string + logger"
  zap_NewDevelopment :: "string + logger"
  tsnet_HTTPClient :: "tsnet_Server \<Rightarrow> http_Client"
  json_Marshal :: "json_object \<Rightarrow> string option"
  http_NewRequest_ok :: "string \<Rightarrow> string \<Rightarrow> bool"
  client_Do :: "http_Client \<Rightarrow> http_Request \<Rightarrow> http_Response option"
  json_Decode :: "string \<Rightarrow> json_object option"

text \<open>\<open>os.Getenv\<close>: the value of the variable, \<open>""\<close> when it is not set.\<close>

definition os_Getenv :: "world \<Rightarrow> string \<Rightarrow> string" where
  "os_Getenv w k = (case map_of (environ w) k of None \<Rightarrow> '''' | Some v \<Rightarrow> v)"

text \<open>
  \<open>strings.TrimRight(s, cutset)\<close>: \<open>s\<close> without all its trailing characters that
  occur in \<open>cutset\<close>.
\<close>

definition TrimRight :: "string \<Rightarrow> string \<Rightarrow> string" where
  "TrimRight s cutset = rev (dropWhile (\<lambda>c. c \<in> set cutset) (rev s))"

text \<open>\<open>fmt.Sprintf("%d", n)\<close> for a Go \<open>int\<close>.\<close>

fun decimal :: "nat \<Rightarrow> string" where
  "decimal n =
     (if n < 10 then [''0123456789'' ! n]
      else decimal (n div 10) @ [''0123456789'' ! (n mod 10)])"

declare decimal.simps [simp del]

definition Sprintf_d :: "int \<Rightarrow> string" where
  "Sprintf_d i = (if i < 0 then ''-'' @ decimal (nat (- i)) else decimal (nat i))"

text \<open>
  \<open>http.NewRequest(method, url, body)\<close>: fails on a method or URL it rejects,
  otherwise a request with no header set.
\<close>

definition http_NewRequest :: "world \<Rightarrow> string \<Rightarrow> string \<Rightarrow> string \<Rightarrow> http_Request option" where
  "http_NewRequest w method url body =
     (if http_NewRequest_ok w method url
      then Some \<lparr>Method = method, URL = url, Header = [], Body = body\<rparr>
      else None)"

text \<open>\<open>req.Header.Set(k, v)\<close>: the header \<open>k\<close> has the single value \<open>v\<close> afterwards.\<close>

definition Header_Set :: "(string \<times> string) list \<Rightarrow> string \<Rightarrow> string \<Rightarrow> (string \<times> string) list" where
  "Header_Set hs k v = filter (\<lambda>kv. fst kv \<noteq> k) hs @ [(k, v)]"

section \<open>The handler\<close>

text \<open>
  \<open>NewLambdaHandler\<close> (lines 29-59). A panic is \<open>Inl\<close> with the panic's message.
\<close>

definition NewLambdaHandler :: "world \<Rightarrow> tsnet_Server option \<Rightarrow> string + LambdaHandler" where
  "NewLambdaHandler w tsNetServer =
     (let baseURL = TrimRight (os_Getenv w ''BASE_URL'') ''/'' in
      if baseURL = '''' then Inl ''Please set BASE_URL environment variable''
      else
        let debug = (os_Getenv w ''DEBUG'' = ''true'');
            made = zap_NewProduction w;
            made = (if debug then zap_NewDevelopment w else made)
        in case made of
             Inl err \<Rightarrow> Inl (''Failed to initialize logger: '' @ err)
           | Inr lg \<Rightarrow>
               Inr \<lparr>BaseURL = baseURL,
                    Debug = debug,
                    LongLivedToken = os_Getenv w ''LONG_LIVED_ACCESS_TOKEN'',
                    VerifySSL = (os_Getenv w ''NOT_VERIFY_SSL'' \<noteq> ''true''),
                    Logger = lg,
                    TSNetServer = tsNetServer\<rparr>)"

text \<open>
  \<open>extractScope\<close> (lines 133-148): \<open>endpoint.scope\<close>, then \<open>payload.grantee\<close>, then
  \<open>payload.scope\<close>; \<open>None\<close> is the nil map it returns when none is an object.
\<close>

definition extractScope :: "LambdaHandler \<Rightarrow> json_object \<Rightarrow> json_object option" where
  "extractScope h directive =
     (case (case as_object (map_of directive ''endpoint'') of
              Some endpoint \<Rightarrow> as_object (map_of endpoint ''scope'')
            | None \<Rightarrow> None) of
        Some scope \<Rightarrow> Some scope
      | None \<Rightarrow>
          (case as_object (map_of directive ''payload'') of
             Some payload \<Rightarrow>
               (case as_object (map_of payload ''grantee'') of
                  Some scope \<Rightarrow> Some scope
                | None \<Rightarrow>
                    (case as_object (map_of payload ''scope'') of
                       Some scope \<Rightarrow> Some scope
                     | None \<Rightarrow> None))
           | None \<Rightarrow> None))"

text \<open>\<open>errorType\<close> (lines 150-155).\<close>

definition errorType :: "LambdaHandler \<Rightarrow> int \<Rightarrow> string" where
  "errorType h statusCode =
     (if statusCode = 401 \<or> statusCode = 403 then ''INVALID_AUTHORIZATION_CREDENTIAL''
      else ''INTERNAL_ERROR'')"

text \<open>
  \<open>createHTTPClient\<close> (lines 157-177). With a \<open>TSNetServer\<close> the function returns
  the server's client at line 161; the lines after the \<open>if\<close> run for the direct
  client only.
\<close>

definition createHTTPClient :: "world \<Rightarrow> LambdaHandler \<Rightarrow> http_Client" where
  "createHTTPClient w h =
     (case TSNetServer h of
        Some s \<Rightarrow> tsnet_HTTPClient w s
      | None \<Rightarrow>
          (let client = \<lparr>Timeout = 0, Transport = NilTransport\<rparr>;
               client = client\<lparr>Timeout := 10 * Second\<rparr>
           in if \<not> VerifySSL h
              then client\<lparr>Transport := InsecureSkipVerifyTransport\<rparr>
              else client))"

text \<open>
  What one call of \<open>HandleRequest\<close> leaves behind: the event map as it stands at the
  return (a Go map is passed by reference), the calls of \<open>client.Do\<close> it made, each
  with the client and the request, and the pair it returns: \<open>Inl\<close> the message of
  the error, \<open>Inr\<close> the response document.
\<close>

record outcome =
  event_on_return :: json_object
  requests :: "(http_Client \<times> http_Request) list"
  result :: "string + json_object"

text \<open>
  \<open>HandleRequest\<close> (lines 61-131). The log calls write to the logger only and are
  left out. Every statement of the function reads \<open>event\<close> and the maps inside it;
  none assigns to a key of them.
\<close>

definition HandleRequest :: "world \<Rightarrow> LambdaHandler \<Rightarrow> json_object \<Rightarrow> outcome" where
  "HandleRequest w h event =
     (case as_object (map_of event ''directive'') of
        None \<Rightarrow>
          \<lparr>event_on_return = event, requests = [],
           result = Inl ''malformatted request - missing directive''\<rparr>
      | Some directive \<Rightarrow>
     (case as_object (map_of directive ''header'') of
        None \<Rightarrow>
          \<lparr>event_on_return = event, requests = [],
           result = Inl ''only support payloadVersion == 3''\<rparr>
      | Some header \<Rightarrow>
     if map_of header ''payloadVersion'' \<noteq> Some (JString ''3'') then
          \<lparr>event_on_return = event, requests = [],
           result = Inl ''only support payloadVersion == 3''\<rparr>
     else
     (case extractScope h directive of
        None \<Rightarrow>
          \<lparr>event_on_return = event, requests = [],
           result = Inl ''malformatted request - missing endpoint.scope''\<rparr>
      | Some scope \<Rightarrow>
     let scopeType = as_string (map_of scope ''type'') in
     if scopeType \<noteq> ''BearerToken'' then
          \<lparr>event_on_return = event, requests = [],
           result = Inl ''only support BearerToken''\<rparr>
     else
     let token = as_string (map_of scope ''token'');
         token = (if token = '''' \<and> Debug h then LongLivedToken h else token);
         client = createHTTPClient w h
     in
     (case json_Marshal w event of
        None \<Rightarrow>
          \<lparr>event_on_return = event, requests = [],
           result = Inl ''failed to serialize event''\<rparr>
      | Some eventJSON \<Rightarrow>
     (case http_NewRequest w ''POST'' (BaseURL h @ ''/api/alexa/smart_home'') eventJSON of
        None \<Rightarrow>
          \<lparr>event_on_return = event, requests = [],
           result = Inl ''internal server error''\<rparr>
      | Some req0 \<Rightarrow>
     let req = req0\<lparr>Header := Header_Set (Header req0) ''Authorization'' (''Bearer '' @ token)\<rparr>;
         req = req\<lparr>Header := Header_Set (Header req) ''Content-Type'' ''application/json''\<rparr>
     in
     (case client_Do w client req of
        None \<Rightarrow>
          \<lparr>event_on_return = event, requests = [(client, req)],
           result = Inl ''internal server error''\<rparr>
      | Some resp \<Rightarrow>
     if StatusCode resp \<ge> 400 then
          \<lparr>event_on_return = event, requests = [(client, req)],
           result = Inl (''status code: '' @ Sprintf_d (StatusCode resp))\<rparr>
     else
     (case json_Decode w (RespBody resp) of
        None \<Rightarrow>
          \<lparr>event_on_return = event, requests = [(client, req)],
           result = Inl ''error decoding response''\<rparr>
      | Some responseBody \<Rightarrow>
          \<lparr>event_on_return = event, requests = [(client, req)],
           result = Inr responseBody\<rparr>)))))))"

text \<open>
  \<open>main\<close> (lines 179-188). \<open>lambda.Start\<close> calls the handler once for each event
  the runtime delivers; \<open>events\<close> is that sequence. A panic of \<open>NewLambdaHandler\<close>
  ends the process before \<open>lambda.Start\<close> is reached.
\<close>

definition main :: "world \<Rightarrow> json_object list \<Rightarrow> string + outcome list" where
  "main w events =
     (let v = os_Getenv w ''TS_AUTHKEY'';
          tsNetServer = (if v \<noteq> '''' then Some \<lparr>AuthKey = v\<rparr> else None)
      in case NewLambdaHandler w tsNetServer of
           Inl p \<Rightarrow> Inl p
         | Inr handler \<Rightarrow> Inr (map (HandleRequest w handler) events))"

section \<open>Vocabulary of the statements and concrete inputs\<close>

text \<open>
  \<open>object_at m a b\<close>: the object at the path \<open>m.a.b\<close>, when \<open>m.a\<close> is an object and
  \<open>m.a.b\<close> is one too.
\<close>

definition object_at :: "json_object \<Rightarrow> string \<Rightarrow> string \<Rightarrow> json_object option" where
  "object_at m a b =
     (case as_object (map_of m a) of
        None \<Rightarrow> None
      | Some inner \<Rightarrow> as_object (map_of inner b))"

text \<open>
  The handler and the event of \<open>TestHandleRequest_Discovery\<close> in \<open>main_test.go\<close>:
  debug mode, the fallback token \<open>mock-token\<close>, a scope at \<open>payload.scope\<close> with no
  token in it.
\<close>

definition test_handler :: LambdaHandler where
  "test_handler =
     \<lparr>BaseURL = ''http://localhost'',
      Debug = True,
      LongLivedToken = ''mock-token'',
      VerifySSL = False,
      Logger = DevelopmentLogger,
      TSNetServer = None\<rparr>"

definition test_header :: json_object where
  "test_header =
     [(''namespace'', JString ''Alexa.Discovery''),
      (''name'', JString ''Discover''),
      (''payloadVersion'', JString ''3''),
      (''messageId'', JString ''1bd5d003-31b9-476f-ad03-71d471922820'')]"

definition test_directive :: json_object where
  "test_directive =
     [(''header'', JObject test_header),
      (''payload'', JObject [(''scope'', JObject [(''type'', JString ''BearerToken'')])])]"

definition test_event :: json_object where
  "test_event = [(''directive'', JObject test_directive)]"

text \<open>
  A world for the concrete inputs: the environment variables the test sets, with a
  slash at the end of \<open>BASE_URL\<close>; \<open>json.Marshal\<close> standing for the encoder by
  tagging the document it was given (the body of a request then tells which document
  was serialized); a backend that answers every request with the status code
  \<open>status\<close> and the body \<open>{}\<close>; and a \<open>tsnet\<close> client as \<open>tsnet.Server.HTTPClient\<close>
  builds it, with its own transport and no timeout set.
\<close>

definition marshal_tag :: "json_object \<Rightarrow> string" where
  "marshal_tag ev =
     (if ev = test_event then ''json(test_event)'' else ''json(other event)'')"

definition test_world :: "int \<Rightarrow> world" where
  "test_world status =
     \<lparr>environ =
        [(''BASE_URL'', ''http://localhost/''),
         (''DEBUG'', ''true''),
         (''LONG_LIVED_ACCESS_TOKEN'', ''mock-token''),
         (''NOT_VERIFY_SSL'', ''true'')],
      zap_NewProduction = Inr ProductionLogger,
      zap_NewDevelopment = Inr DevelopmentLogger,
      tsnet_HTTPClient = (\<lambda>s. \<lparr>Timeout = 0, Transport = TSNetTransport\<rparr>),
      json_Marshal = (\<lambda>ev. Some (marshal_tag ev)),
      http_NewRequest_ok = (\<lambda>method url. True),
      client_Do = (\<lambda>client req. Some \<lparr>StatusCode = status, RespBody = ''{}''\<rparr>),
      json_Decode = (\<lambda>body. if body = ''{}'' then Some [] else None)\<rparr>"

text \<open>Further inputs: handlers.\<close>

definition plain_handler :: LambdaHandler where
  "plain_handler = test_handler\<lparr>Debug := False\<rparr>"

definition overlay_handler :: LambdaHandler where
  "overlay_handler = test_handler\<lparr>TSNetServer := Some \<lparr>AuthKey = ''tskey-auth''\<rparr>\<rparr>"

text \<open>Further inputs: events that differ from the test's event in one place each.\<close>

definition bearer_scope :: "string \<Rightarrow> json" where
  "bearer_scope token = JObject [(''type'', JString ''BearerToken''), (''token'', JString token)]"

definition headerless_event :: json_object where
  "headerless_event =
     [(''directive'',
       JObject [(''payload'', JObject [(''scope'', JObject [(''type'', JString ''BearerToken'')])])])]"

definition string_header_event :: json_object where
  "string_header_event =
     [(''directive'',
       JObject [(''header'', JString ''3''),
                (''payload'', JObject [(''scope'', JObject [(''type'', JString ''BearerToken'')])])])]"

definition version2_event :: json_object where
  "version2_event =
     [(''directive'',
       JObject [(''header'', JObject [(''payloadVersion'', JString ''2'')]),
                (''payload'', JObject [(''scope'', JObject [(''type'', JString ''BearerToken'')])])])]"

definition version2_scopeless_directive :: json_object where
  "version2_scopeless_directive =
     [(''header'', JObject [(''payloadVersion'', JString ''2'')]),
      (''payload'', JObject [])]"

definition version2_scopeless_event :: json_object where
  "version2_scopeless_event = [(''directive'', JObject version2_scopeless_directive)]"

definition scopeless_directive :: json_object where
  "scopeless_directive =
     [(''header'', JObject test_header),
      (''endpoint'', JObject [(''endpointId'', JString ''device-001'')]),
      (''payload'', JObject [(''scope'', JString ''BearerToken'')])]"

definition scopeless_event :: json_object where
  "scopeless_event = [(''directive'', JObject scopeless_directive)]"

definition three_scopes_directive :: json_object where
  "three_scopes_directive =
     [(''header'', JObject test_header),
      (''endpoint'', JObject [(''scope'', bearer_scope ''from-endpoint'')]),
      (''payload'',
       JObject [(''grantee'', bearer_scope ''from-grantee''),
                (''scope'', bearer_scope ''from-payload-scope'')])]"

definition grantee_and_scope_directive :: json_object where
  "grantee_and_scope_directive =
     [(''header'', JObject test_header),
      (''endpoint'', JObject [(''scope'', JNull)]),
      (''payload'',
       JObject [(''grantee'', bearer_scope ''from-grantee''),
                (''scope'', bearer_scope ''from-payload-scope'')])]"

definition scope_event :: "json_object \<Rightarrow> json_object" where
  "scope_event scope =
     [(''directive'',
       JObject [(''header'', JObject test_header),
                (''endpoint'', JObject [(''scope'', JObject scope)])])]"

definition empty_token_scope :: json_object where
  "empty_token_scope = [(''type'', JString ''BearerToken''), (''token'', JString '''')]"

definition numeric_type_scope :: json_object where
  "numeric_type_scope = [(''type'', JNumber 3), (''token'', JString ''abc'')]"

definition numeric_token_scope :: json_object where
  "numeric_token_scope = [(''type'', JString ''BearerToken''), (''token'', JNumber 42)]"

section \<open>Facts shared by the proofs\<close>

lemmas model_defs =
  HandleRequest_def createHTTPClient_def extractScope_def http_NewRequest_def Header_Set_def

lemmas input_defs =
  test_world_def test_handler_def test_event_def test_directive_def test_header_def
  marshal_tag_def plain_handler_def overlay_handler_def bearer_scope_def scope_event_def

lemma HandleRequest_header_rejected:
  assumes "as_object (map_of event ''directive'') = Some directive"
    and "as_object (map_of directive ''header'') = None"
  shows "HandleRequest w h event =
     \<lparr>event_on_return = event, requests = [],
      result = Inl ''only support payloadVersion == 3''\<rparr>"
  using assms by (simp add: HandleRequest_def)

lemma HandleRequest_version_rejected:
  assumes "as_object (map_of event ''directive'') = Some directive"
    and "as_object (map_of directive ''header'') = Some header"
    and "map_of header ''payloadVersion'' \<noteq> Some (JString ''3'')"
  shows "HandleRequest w h event =
     \<lparr>event_on_return = event, requests = [],
      result = Inl ''only support payloadVersion == 3''\<rparr>"
  using assms by (simp add: HandleRequest_def)

lemma HandleRequest_scope_missing:
  assumes "as_object (map_of event ''directive'') = Some directive"
    and "as_object (map_of directive ''header'') = Some header"
    and "map_of header ''payloadVersion'' = Some (JString ''3'')"
    and "extractScope h directive = None"
  shows "HandleRequest w h event =
     \<lparr>event_on_return = event, requests = [],
      result = Inl ''malformatted request - missing endpoint.scope''\<rparr>"
  using assms by (simp add: HandleRequest_def)

lemma HandleRequest_type_rejected:
  assumes "as_object (map_of event ''directive'') = Some directive"
    and "as_object (map_of directive ''header'') = Some header"
    and "map_of header ''payloadVersion'' = Some (JString ''3'')"
    and "extractScope h directive = Some scope"
    and "as_string (map_of scope ''type'') \<noteq> ''BearerToken''"
  shows "HandleRequest w h event =
     \<lparr>event_on_return = event, requests = [],
      result = Inl ''only support BearerToken''\<rparr>"
  using assms by (simp add: HandleRequest_def)

text \<open>
  Past the checks, the requests sent: none when \<open>json.Marshal\<close> or
  \<open>http.NewRequest\<close> fails, otherwise exactly one, whose bearer credential is the
  scope's token, or the fallback token when the scope's token reads as empty and the
  handler is in debug mode.
\<close>

lemma HandleRequest_requests:
  assumes "as_object (map_of event ''directive'') = Some directive"
    and "as_object (map_of directive ''header'') = Some header"
    and "map_of header ''payloadVersion'' = Some (JString ''3'')"
    and "extractScope h directive = Some scope"
    and "as_string (map_of scope ''type'') = ''BearerToken''"
  shows "requests (HandleRequest w h event) =
     (case json_Marshal w event of
        None \<Rightarrow> []
      | Some body \<Rightarrow>
          if http_NewRequest_ok w ''POST'' (BaseURL h @ ''/api/alexa/smart_home'')
          then [(createHTTPClient w h,
                 \<lparr>Method = ''POST'',
                  URL = BaseURL h @ ''/api/alexa/smart_home'',
                  Header =
                    [(''Authorization'',
                      ''Bearer '' @
                        (if as_string (map_of scope ''token'') = '''' \<and> Debug h
                         then LongLivedToken h
                         else as_string (map_of scope ''token''))),
                     (''Content-Type'', ''application/json'')],
                  Body = body\<rparr>)]
          else [])"
  using assms
  by (simp add: HandleRequest_def http_NewRequest_def Header_Set_def Let_def
      split: option.splits)

text \<open>The two paths of \<open>createHTTPClient\<close>.\<close>

lemma createHTTPClient_overlay:
  "TSNetServer h = Some s \<Longrightarrow> createHTTPClient w h = tsnet_HTTPClient w s"
  by (simp add: createHTTPClient_def)

lemma createHTTPClient_direct:
  "TSNetServer h = None \<Longrightarrow>
   createHTTPClient w h =
     \<lparr>Timeout = 10 * Second,
      Transport = (if VerifySSL h then NilTransport else InsecureSkipVerifyTransport)\<rparr>"
  by (simp add: createHTTPClient_def)

lemma extractScope_object_at:
  "extractScope h directive =
     (case object_at directive ''endpoint'' ''scope'' of
        Some scope \<Rightarrow> Some scope
      | None \<Rightarrow>
          (case object_at directive ''payload'' ''grantee'' of
             Some scope \<Rightarrow> Some scope
           | None \<Rightarrow> object_at directive ''payload'' ''scope''))"
  by (simp add: extractScope_def object_at_def split: option.splits)

lemma createHTTPClient_LongLivedToken:
  "createHTTPClient w (h\<lparr>LongLivedToken := t\<rparr>) = createHTTPClient w h"
  by (simp add: createHTTPClient_def split: option.splits)

lemma extractScope_handler:
  "extractScope h directive = extractScope h' directive"
  by (simp add: extractScope_def)

lemma HandleRequest_not_Debug:
  "\<not> Debug h \<Longrightarrow>
   HandleRequest w (h\<lparr>LongLivedToken := t\<rparr>) event = HandleRequest w h event"
  unfolding HandleRequest_def createHTTPClient_LongLivedToken
    extractScope_handler [of "h\<lparr>LongLivedToken := t\<rparr>" _ h]
  by (simp add: Let_def cong: option.case_cong if_cong)

lemma TrimRight_decompose:
  "\<exists>n. s = TrimRight s [c] @ replicate n c"
proof -
  let ?P = "\<lambda>x. x \<in> set [c]"
  let ?t = "takeWhile ?P (rev s)"
  have split: "s = TrimRight s [c] @ rev ?t"
    unfolding TrimRight_def
    by (metis rev_append rev_rev_ident takeWhile_dropWhile_id)
  have "replicate (length (rev ?t)) c = rev ?t"
    by (rule replicate_length_same) (auto dest: set_takeWhileD)
  with split have "s = TrimRight s [c] @ replicate (length (rev ?t)) c" by simp
  then show ?thesis ..
qed

lemma TrimRight_last:
  "TrimRight s [c] \<noteq> [] \<Longrightarrow> last (TrimRight s [c]) \<noteq> c"
  unfolding TrimRight_def
  using hd_dropWhile [of "\<lambda>x. x \<in> set [c]" "rev s"]
  by (simp add: last_rev)

lemma os_Getenv_unset:
  "map_of (environ w) k = None \<or> map_of (environ w) k = Some '''' \<Longrightarrow> os_Getenv w k = ''''"
  by (auto simp: os_Getenv_def)

lemma NewLambdaHandler_unset:
  "os_Getenv w ''BASE_URL'' = '''' \<Longrightarrow>
   NewLambdaHandler w ts = Inl ''Please set BASE_URL environment variable''"
  by (simp add: NewLambdaHandler_def TrimRight_def)

lemma NewLambdaHandler_BaseURL:
  "NewLambdaHandler w ts = Inr h \<Longrightarrow>
   BaseURL h = TrimRight (os_Getenv w ''BASE_URL'') ''/'' \<and> BaseURL h \<noteq> ''''"
  by (auto simp: NewLambdaHandler_def Let_def split: if_splits sum.splits)

section \<open>The claims\<close>

subsection \<open>C1: backend status codes of 400 and above\<close>

text \<open>
  C1 says that for a backend response with status code 400 or above \<open>HandleRequest\<close>
  returns a failure carrying the status code, classified as
  invalid-authorization-credential for 401 and 403 and as internal-error otherwise.
  The function \<open>errorType\<close> computes that classification, and \<open>HandleRequest\<close> never
  calls it. Evaluated on the test's event against a backend that answers 403 and one
  that answers 500, the failure returned is the message \<open>status code: N\<close> both times
  and nothing else; the class \<open>errorType\<close> gives for the code is not part of it.
\<close>

theorem HandleRequest_status_failure_unclassified:
  "result (HandleRequest (test_world 403) test_handler test_event) = Inl ''status code: 403'' \<and>
   result (HandleRequest (test_world 500) test_handler test_event) = Inl ''status code: 500'' \<and>
   errorType test_handler 403 = ''INVALID_AUTHORIZATION_CREDENTIAL'' \<and>
   errorType test_handler 500 = ''INTERNAL_ERROR''"
  by (simp add: model_defs input_defs errorType_def Sprintf_d_def decimal.simps)

subsection \<open>C2: the timeout of the client\<close>

text \<open>
  C2 says that the client of the transport selector has a request timeout of 10
  seconds whether it is the direct client or the overlay's, and that with an overlay
  session the timeout is set on that client. \<open>createHTTPClient\<close> returns the overlay's
  client at line 161, before the assignment to \<open>Timeout\<close> at line 166. Evaluated on a
  handler with a \<open>TSNetServer\<close>, the client has the timeout \<open>tsnet\<close> gave it, which is
  zero (none); the direct client of the same handler without the server has 10 seconds.
\<close>

theorem createHTTPClient_overlay_timeout_not_set:
  "Timeout (createHTTPClient (test_world 200) overlay_handler) = 0 \<and>
   Timeout (createHTTPClient (test_world 200) overlay_handler) \<noteq> 10 * Second \<and>
   Timeout (createHTTPClient (test_world 200) test_handler) = 10 * Second"
  by (simp add: createHTTPClient_def input_defs Second_def)

subsection \<open>C3: a missing or invalid header\<close>

text \<open>
  C3 says that a directive whose header is missing or not an object gets a
  malformed-request error. The two malformed-request errors of \<open>HandleRequest\<close> are
  \<open>malformatted request - missing directive\<close> and
  \<open>malformatted request - missing endpoint.scope\<close>. A directive with a scope and no
  header gets neither: line 71 tests the header and the version in one condition and
  answers \<open>only support payloadVersion == 3\<close>.
\<close>

theorem missing_header_not_malformed_request:
  "as_object (map_of [(''payload'', JObject [(''scope'', JObject [(''type'', JString ''BearerToken'')])])]
     ''header'') = None \<and>
   result (HandleRequest (test_world 200) test_handler headerless_event) =
     Inl ''only support payloadVersion == 3'' \<and>
   result (HandleRequest (test_world 200) test_handler headerless_event) \<noteq>
     Inl ''malformatted request - missing directive'' \<and>
   result (HandleRequest (test_world 200) test_handler headerless_event) \<noteq>
     Inl ''malformatted request - missing endpoint.scope''"
  by (simp add: HandleRequest_def headerless_event_def)

text \<open>
  C3 as amended: for every directive whose header is missing or not an object,
  \<open>HandleRequest\<close> returns the unsupported-version error
  \<open>only support payloadVersion == 3\<close>, and makes no call to the backend.
\<close>

theorem missing_header_unsupported_version:
  assumes "as_object (map_of event ''directive'') = Some directive"
    and "as_object (map_of directive ''header'') = None"
  shows "result (HandleRequest w h event) = Inl ''only support payloadVersion == 3'' \<and>
         requests (HandleRequest w h event) = []"
  by (simp add: HandleRequest_header_rejected [OF assms])

theorem missing_header_unsupported_version_witness:
  "result (HandleRequest (test_world 200) test_handler headerless_event) =
     Inl ''only support payloadVersion == 3'' \<and>
   requests (HandleRequest (test_world 200) test_handler headerless_event) = [] \<and>
   result (HandleRequest (test_world 200) test_handler string_header_event) =
     Inl ''only support payloadVersion == 3'' \<and>
   requests (HandleRequest (test_world 200) test_handler string_header_event) = []"
proof -
  let ?payload = "(''payload'', JObject [(''scope'', JObject [(''type'', JString ''BearerToken'')])])"
  have missing: "as_object (map_of headerless_event ''directive'') = Some [?payload]"
    by (simp add: headerless_event_def)
  have no_header: "as_object (map_of [?payload] ''header'') = None"
    by simp
  have invalid: "as_object (map_of string_header_event ''directive'') =
      Some [(''header'', JString ''3''), ?payload]"
    by (simp add: string_header_event_def)
  have not_object: "as_object (map_of [(''header'', JString ''3''), ?payload] ''header'') = None"
    by simp
  show ?thesis
    using missing_header_unsupported_version [OF missing no_header]
      missing_header_unsupported_version [OF invalid not_object]
    by simp
qed

subsection \<open>C4: the order of scope resolution\<close>

text \<open>
  C4 says that for every directive the scope is looked up at \<open>endpoint.scope\<close>, then
  \<open>payload.grantee\<close>, then \<open>payload.scope\<close>, and that \<open>HandleRequest\<close> returns a
  malformed-request failure when none of the three is an object. The order holds for
  every directive. The failure does not: the version check of line 71 runs before the
  scope is looked up, so a directive with no scope whose version is \<open>"2"\<close> gets the
  unsupported-version failure.
\<close>

theorem missing_scope_other_version_not_malformed_request:
  "as_object (map_of version2_scopeless_event ''directive'') = Some version2_scopeless_directive \<and>
   object_at version2_scopeless_directive ''endpoint'' ''scope'' = None \<and>
   object_at version2_scopeless_directive ''payload'' ''grantee'' = None \<and>
   object_at version2_scopeless_directive ''payload'' ''scope'' = None \<and>
   result (HandleRequest (test_world 200) test_handler version2_scopeless_event) =
     Inl ''only support payloadVersion == 3'' \<and>
   result (HandleRequest (test_world 200) test_handler version2_scopeless_event) \<noteq>
     Inl ''malformatted request - missing directive'' \<and>
   result (HandleRequest (test_world 200) test_handler version2_scopeless_event) \<noteq>
     Inl ''malformatted request - missing endpoint.scope''"
  by (simp add: HandleRequest_def object_at_def version2_scopeless_event_def
      version2_scopeless_directive_def)

text \<open>
  C4 as amended: for every directive, \<open>extractScope\<close> returns the first object among
  \<open>endpoint.scope\<close>, \<open>payload.grantee\<close> and \<open>payload.scope\<close>, in that order, so an
  object at \<open>endpoint.scope\<close> wins over the other two; and when none of the three is an
  object and the directive's \<open>header.payloadVersion\<close> is \<open>"3"\<close>, \<open>HandleRequest\<close>
  returns the malformed-request failure
  \<open>malformatted request - missing endpoint.scope\<close> and makes no call to the backend.
\<close>

theorem scope_resolution_order:
  "extractScope h directive =
     (case object_at directive ''endpoint'' ''scope'' of
        Some scope \<Rightarrow> Some scope
      | None \<Rightarrow>
          (case object_at directive ''payload'' ''grantee'' of
             Some scope \<Rightarrow> Some scope
           | None \<Rightarrow> object_at directive ''payload'' ''scope'')) \<and>
   (object_at directive ''endpoint'' ''scope'' = Some scope \<longrightarrow>
      extractScope h directive = Some scope) \<and>
   (as_object (map_of event ''directive'') = Some directive \<and>
    as_object (map_of directive ''header'') = Some header \<and>
    map_of header ''payloadVersion'' = Some (JString ''3'') \<and>
    object_at directive ''endpoint'' ''scope'' = None \<and>
    object_at directive ''payload'' ''grantee'' = None \<and>
    object_at directive ''payload'' ''scope'' = None \<longrightarrow>
      result (HandleRequest w h event) = Inl ''malformatted request - missing endpoint.scope'' \<and>
      requests (HandleRequest w h event) = [])"
proof (intro conjI impI)
  show order: "extractScope h directive =
     (case object_at directive ''endpoint'' ''scope'' of
        Some scope \<Rightarrow> Some scope
      | None \<Rightarrow>
          (case object_at directive ''payload'' ''grantee'' of
             Some scope \<Rightarrow> Some scope
           | None \<Rightarrow> object_at directive ''payload'' ''scope''))"
    by (rule extractScope_object_at)
  show "extractScope h directive = Some scope"
    if "object_at directive ''endpoint'' ''scope'' = Some scope"
    using that by (simp add: order)
  assume none: "as_object (map_of event ''directive'') = Some directive \<and>
    as_object (map_of directive ''header'') = Some header \<and>
    map_of header ''payloadVersion'' = Some (JString ''3'') \<and>
    object_at directive ''endpoint'' ''scope'' = None \<and>
    object_at directive ''payload'' ''grantee'' = None \<and>
    object_at directive ''payload'' ''scope'' = None"
  then have nil: "extractScope h directive = None"
    by (simp add: order)
  from none have directive: "as_object (map_of event ''directive'') = Some directive"
    and header: "as_object (map_of directive ''header'') = Some header"
    and version: "map_of header ''payloadVersion'' = Some (JString ''3'')"
    by simp_all
  have "HandleRequest w h event =
     \<lparr>event_on_return = event, requests = [],
      result = Inl ''malformatted request - missing endpoint.scope''\<rparr>"
    by (rule HandleRequest_scope_missing [OF directive header version nil])
  then show "result (HandleRequest w h event) = Inl ''malformatted request - missing endpoint.scope''"
    and "requests (HandleRequest w h event) = []"
    by simp_all
qed

theorem scope_resolution_order_witness:
  "extractScope test_handler three_scopes_directive =
     Some [(''type'', JString ''BearerToken''), (''token'', JString ''from-endpoint'')] \<and>
   extractScope test_handler grantee_and_scope_directive =
     Some [(''type'', JString ''BearerToken''), (''token'', JString ''from-grantee'')] \<and>
   extractScope test_handler test_directive = Some [(''type'', JString ''BearerToken'')] \<and>
   result (HandleRequest (test_world 200) test_handler scopeless_event) =
     Inl ''malformatted request - missing endpoint.scope'' \<and>
   requests (HandleRequest (test_world 200) test_handler scopeless_event) = []"
proof -
  let ?first = "[(''type'', JString ''BearerToken''), (''token'', JString ''from-endpoint'')]"
  have at_endpoint: "object_at three_scopes_directive ''endpoint'' ''scope'' = Some ?first"
    by (simp add: object_at_def three_scopes_directive_def bearer_scope_def)
  have none: "as_object (map_of scopeless_event ''directive'') = Some scopeless_directive \<and>
    as_object (map_of scopeless_directive ''header'') = Some test_header \<and>
    map_of test_header ''payloadVersion'' = Some (JString ''3'') \<and>
    object_at scopeless_directive ''endpoint'' ''scope'' = None \<and>
    object_at scopeless_directive ''payload'' ''grantee'' = None \<and>
    object_at scopeless_directive ''payload'' ''scope'' = None"
    by (simp add: object_at_def scopeless_event_def scopeless_directive_def test_header_def)
  have three: "extractScope test_handler three_scopes_directive = Some ?first"
    using scope_resolution_order [of test_handler three_scopes_directive ?first] at_endpoint
    by blast
  have two: "extractScope test_handler grantee_and_scope_directive =
     Some [(''type'', JString ''BearerToken''), (''token'', JString ''from-grantee'')]"
    using scope_resolution_order [of test_handler grantee_and_scope_directive]
    by (simp add: object_at_def grantee_and_scope_directive_def bearer_scope_def)
  have one: "extractScope test_handler test_directive = Some [(''type'', JString ''BearerToken'')]"
    using scope_resolution_order [of test_handler test_directive]
    by (simp add: object_at_def test_directive_def)
  have failure: "result (HandleRequest (test_world 200) test_handler scopeless_event) =
       Inl ''malformatted request - missing endpoint.scope'' \<and>
     requests (HandleRequest (test_world 200) test_handler scopeless_event) = []"
    using scope_resolution_order
      [of test_handler scopeless_directive _ scopeless_event test_header "test_world 200"] none
    by blast
  from three two one failure show ?thesis by simp
qed

subsection \<open>C5: a payload version other than "3"\<close>

text \<open>
  C5: for every directive whose \<open>header.payloadVersion\<close> is not the string \<open>"3"\<close>,
  the header being absent included, \<open>HandleRequest\<close> returns the unsupported-version
  failure \<open>only support payloadVersion == 3\<close> and makes no call to the backend.
\<close>

theorem other_version_rejected_without_call:
  assumes "as_object (map_of event ''directive'') = Some directive"
    and "as_object (map_of directive ''header'') = None \<or>
         (\<exists>header. as_object (map_of directive ''header'') = Some header \<and>
                   map_of header ''payloadVersion'' \<noteq> Some (JString ''3''))"
  shows "result (HandleRequest w h event) = Inl ''only support payloadVersion == 3'' \<and>
         requests (HandleRequest w h event) = []"
  using assms HandleRequest_header_rejected [of event directive w h]
    HandleRequest_version_rejected [of event directive _ w h]
  by auto

theorem other_version_rejected_without_call_witness:
  "result (HandleRequest (test_world 200) test_handler version2_event) =
     Inl ''only support payloadVersion == 3'' \<and>
   requests (HandleRequest (test_world 200) test_handler version2_event) = [] \<and>
   result (HandleRequest (test_world 200) test_handler headerless_event) =
     Inl ''only support payloadVersion == 3'' \<and>
   requests (HandleRequest (test_world 200) test_handler headerless_event) = []"
proof -
  let ?payload = "(''payload'', JObject [(''scope'', JObject [(''type'', JString ''BearerToken'')])])"
  let ?v2 = "[(''header'', JObject [(''payloadVersion'', JString ''2'')]), ?payload]"
  have d2: "as_object (map_of version2_event ''directive'') = Some ?v2"
    by (simp add: version2_event_def)
  have v2: "as_object (map_of ?v2 ''header'') = None \<or>
      (\<exists>header. as_object (map_of ?v2 ''header'') = Some header \<and>
                map_of header ''payloadVersion'' \<noteq> Some (JString ''3''))"
    by simp
  have d0: "as_object (map_of headerless_event ''directive'') = Some [?payload]"
    by (simp add: headerless_event_def)
  have v0: "as_object (map_of [?payload] ''header'') = None \<or>
      (\<exists>header. as_object (map_of [?payload] ''header'') = Some header \<and>
                map_of header ''payloadVersion'' \<noteq> Some (JString ''3''))"
    by simp
  show ?thesis
    using other_version_rejected_without_call [OF d2 v2]
      other_version_rejected_without_call [OF d0 v0]
    by simp
qed

subsection \<open>C6: an empty token\<close>

text \<open>
  C6: for every valid directive (payload version \<open>"3"\<close>, a scope of type
  \<open>BearerToken\<close>) whose scope has the token \<open>""\<close> or no token, the empty token is no
  failure: \<open>HandleRequest\<close> goes on to serialize the event and build the request, and
  the request it sends carries \<open>Authorization: Bearer <fallback token>\<close>, the fallback
  token verbatim, when \<open>Debug\<close> is true, and \<open>Authorization: Bearer \<close> with an empty
  credential when \<open>Debug\<close> is false. No request is sent only when \<open>json.Marshal\<close> or
  \<open>http.NewRequest\<close> fails.
\<close>

theorem empty_token_credential:
  assumes "as_object (map_of event ''directive'') = Some directive"
    and "as_object (map_of directive ''header'') = Some header"
    and "map_of header ''payloadVersion'' = Some (JString ''3'')"
    and "extractScope h directive = Some scope"
    and "map_of scope ''type'' = Some (JString ''BearerToken'')"
    and "map_of scope ''token'' = Some (JString '''') \<or> map_of scope ''token'' = None"
  shows "requests (HandleRequest w h event) =
     (case json_Marshal w event of
        None \<Rightarrow> []
      | Some body \<Rightarrow>
          if http_NewRequest_ok w ''POST'' (BaseURL h @ ''/api/alexa/smart_home'')
          then [(createHTTPClient w h,
                 \<lparr>Method = ''POST'',
                  URL = BaseURL h @ ''/api/alexa/smart_home'',
                  Header =
                    [(''Authorization'',
                      ''Bearer '' @ (if Debug h then LongLivedToken h else '''')),
                     (''Content-Type'', ''application/json'')],
                  Body = body\<rparr>)]
          else [])"
proof -
  from assms(5) have type: "as_string (map_of scope ''type'') = ''BearerToken''"
    by simp
  from assms(6) have token: "as_string (map_of scope ''token'') = ''''"
    by auto
  show ?thesis
    unfolding HandleRequest_requests [OF assms(1-4) type] token
    by (simp cong: option.case_cong)
qed

theorem empty_token_credential_witness:
  "requests (HandleRequest (test_world 200) test_handler test_event) =
     [(\<lparr>Timeout = 10 * Second, Transport = InsecureSkipVerifyTransport\<rparr>,
       \<lparr>Method = ''POST'',
        URL = ''http://localhost/api/alexa/smart_home'',
        Header =
          [(''Authorization'', ''Bearer mock-token''),
           (''Content-Type'', ''application/json'')],
        Body = ''json(test_event)''\<rparr>)] \<and>
   requests (HandleRequest (test_world 200) plain_handler (scope_event empty_token_scope)) =
     [(\<lparr>Timeout = 10 * Second, Transport = InsecureSkipVerifyTransport\<rparr>,
       \<lparr>Method = ''POST'',
        URL = ''http://localhost/api/alexa/smart_home'',
        Header =
          [(''Authorization'', ''Bearer ''),
           (''Content-Type'', ''application/json'')],
        Body = ''json(other event)''\<rparr>)]"
proof -
  let ?w = "test_world 200"
  have header: "map_of test_header ''payloadVersion'' = Some (JString ''3'')"
    by (simp add: test_header_def)
  have a1: "as_object (map_of test_event ''directive'') = Some test_directive"
    by (simp add: test_event_def)
  have a2: "as_object (map_of test_directive ''header'') = Some test_header"
    by (simp add: test_directive_def)
  have a4: "extractScope test_handler test_directive = Some [(''type'', JString ''BearerToken'')]"
    by (simp add: extractScope_def test_directive_def)
  have a5: "map_of [(''type'', JString ''BearerToken'')] ''type'' = Some (JString ''BearerToken'')"
    by simp
  have a6: "map_of [(''type'', JString ''BearerToken'')] ''token'' = Some (JString '''') \<or>
      map_of [(''type'', JString ''BearerToken'')] ''token'' = None"
    by simp
  let ?directive = "[(''header'', JObject test_header),
      (''endpoint'', JObject [(''scope'', JObject empty_token_scope)])]"
  have b1: "as_object (map_of (scope_event empty_token_scope) ''directive'') = Some ?directive"
    by (simp add: scope_event_def)
  have b2: "as_object (map_of ?directive ''header'') = Some test_header"
    by simp
  have b4: "extractScope plain_handler ?directive = Some empty_token_scope"
    by (simp add: extractScope_def)
  have b5: "map_of empty_token_scope ''type'' = Some (JString ''BearerToken'')"
    by (simp add: empty_token_scope_def)
  have b6: "map_of empty_token_scope ''token'' = Some (JString '''') \<or>
      map_of empty_token_scope ''token'' = None"
    by (simp add: empty_token_scope_def)
  have marshal: "json_Marshal ?w test_event = Some ''json(test_event)''"
    "json_Marshal ?w (scope_event empty_token_scope) = Some ''json(other event)''"
    by (simp_all add: input_defs empty_token_scope_def)
  have ok: "http_NewRequest_ok ?w verb url" for verb url
    by (simp add: test_world_def)
  have client: "createHTTPClient ?w test_handler =
      \<lparr>Timeout = 10 * Second, Transport = InsecureSkipVerifyTransport\<rparr>"
    "createHTTPClient ?w plain_handler =
      \<lparr>Timeout = 10 * Second, Transport = InsecureSkipVerifyTransport\<rparr>"
    by (simp_all add: createHTTPClient_def test_handler_def plain_handler_def)
  have handler: "BaseURL test_handler = ''http://localhost''" "Debug test_handler"
    "LongLivedToken test_handler = ''mock-token''"
    "BaseURL plain_handler = ''http://localhost''" "\<not> Debug plain_handler"
    by (simp_all add: test_handler_def plain_handler_def)
  show ?thesis
    unfolding empty_token_credential [OF a1 a2 header a4 a5 a6, of ?w]
      empty_token_credential [OF b1 b2 header b4 b5 b6, of ?w]
    by (simp add: marshal ok client handler)
qed

subsection \<open>C7: the base URL at construction\<close>

text \<open>
  C7: \<open>NewLambdaHandler\<close> strips the trailing slash from \<open>BASE_URL\<close> (every trailing
  slash: the handler's base URL is the configured one without its run of final
  slashes, and does not end in a slash), and panics when \<open>BASE_URL\<close> is not set or
  empty; \<open>main\<close> then ends with that panic, whatever events the runtime holds, without
  a call of \<open>HandleRequest\<close>.
\<close>

theorem NewLambdaHandler_base_url:
  "(map_of (environ w) ''BASE_URL'' = None \<or> map_of (environ w) ''BASE_URL'' = Some '''' \<longrightarrow>
      NewLambdaHandler w tsNetServer = Inl ''Please set BASE_URL environment variable'' \<and>
      main w events = Inl ''Please set BASE_URL environment variable'') \<and>
   (NewLambdaHandler w tsNetServer = Inr h \<longrightarrow>
      BaseURL h = TrimRight (os_Getenv w ''BASE_URL'') ''/'' \<and>
      (\<exists>n. os_Getenv w ''BASE_URL'' = BaseURL h @ replicate n CHR ''/'') \<and>
      BaseURL h \<noteq> '''' \<and>
      last (BaseURL h) \<noteq> CHR ''/'')"
proof (intro conjI impI)
  assume "map_of (environ w) ''BASE_URL'' = None \<or> map_of (environ w) ''BASE_URL'' = Some ''''"
  then have unset: "os_Getenv w ''BASE_URL'' = ''''"
    by (rule os_Getenv_unset)
  then show "NewLambdaHandler w tsNetServer = Inl ''Please set BASE_URL environment variable''"
    by (rule NewLambdaHandler_unset)
  show "main w events = Inl ''Please set BASE_URL environment variable''"
    by (simp add: main_def Let_def NewLambdaHandler_unset [OF unset])
next
  assume built: "NewLambdaHandler w tsNetServer = Inr h"
  note facts = NewLambdaHandler_BaseURL [OF built]
  have base: "BaseURL h = TrimRight (os_Getenv w ''BASE_URL'') ''/''"
    by (rule conjunct1 [OF facts])
  have nonempty: "BaseURL h \<noteq> ''''"
    by (rule conjunct2 [OF facts])
  show "BaseURL h = TrimRight (os_Getenv w ''BASE_URL'') ''/''"
    by (rule base)
  show "\<exists>n. os_Getenv w ''BASE_URL'' = BaseURL h @ replicate n CHR ''/''"
    unfolding base by (rule TrimRight_decompose)
  show "BaseURL h \<noteq> ''''"
    by (rule nonempty)
  show "last (BaseURL h) \<noteq> CHR ''/''"
    using nonempty unfolding base by (rule TrimRight_last)
qed

theorem NewLambdaHandler_base_url_witness:
  "os_Getenv (test_world 200) ''BASE_URL'' = ''http://localhost/'' \<and>
   NewLambdaHandler (test_world 200) None = Inr test_handler \<and>
   BaseURL test_handler = ''http://localhost'' \<and>
   last (BaseURL test_handler) \<noteq> CHR ''/'' \<and>
   NewLambdaHandler ((test_world 200)\<lparr>environ := []\<rparr>) None =
     Inl ''Please set BASE_URL environment variable'' \<and>
   main ((test_world 200)\<lparr>environ := []\<rparr>) [test_event] =
     Inl ''Please set BASE_URL environment variable''"
proof -
  have configured: "os_Getenv (test_world 200) ''BASE_URL'' = ''http://localhost/''"
    by (simp add: os_Getenv_def test_world_def)
  have built: "NewLambdaHandler (test_world 200) None = Inr test_handler"
    by (simp add: NewLambdaHandler_def os_Getenv_def TrimRight_def test_world_def
        test_handler_def)
  have unset: "map_of (environ ((test_world 200)\<lparr>environ := []\<rparr>)) ''BASE_URL'' = None \<or>
      map_of (environ ((test_world 200)\<lparr>environ := []\<rparr>)) ''BASE_URL'' = Some ''''"
    by simp
  have stripped: "last (BaseURL test_handler) \<noteq> CHR ''/''"
    using NewLambdaHandler_base_url [of "test_world 200" None _ test_handler] built
    by blast
  have fatal: "NewLambdaHandler ((test_world 200)\<lparr>environ := []\<rparr>) None =
      Inl ''Please set BASE_URL environment variable'' \<and>
    main ((test_world 200)\<lparr>environ := []\<rparr>) [test_event] =
      Inl ''Please set BASE_URL environment variable''"
    using NewLambdaHandler_base_url
      [of "(test_world 200)\<lparr>environ := []\<rparr>" None "[test_event]"] unset
    by blast
  have "BaseURL test_handler = ''http://localhost''"
    by (simp add: test_handler_def)
  with configured built stripped fatal show ?thesis
    by simp
qed

subsection \<open>C8: the event is read, never written\<close>

text \<open>
  C8: on every path, success or failure, the event map is at the return of
  \<open>HandleRequest\<close> what it was at the call, and the body of every request sent to the
  backend is the serialization \<open>json.Marshal\<close> gives for that event; the fallback
  token, when it is used, goes into the header of the request and not into the event.
\<close>

theorem HandleRequest_leaves_event:
  "event_on_return (HandleRequest w h event) = event \<and>
   (\<forall>(client, req) \<in> set (requests (HandleRequest w h event)).
      json_Marshal w event = Some (Body req))"
  by (simp add: HandleRequest_def http_NewRequest_def Let_def split: option.splits)

theorem HandleRequest_leaves_event_witness:
  "event_on_return (HandleRequest (test_world 200) test_handler test_event) = test_event \<and>
   requests (HandleRequest (test_world 200) test_handler test_event) =
     [(\<lparr>Timeout = 10 * Second, Transport = InsecureSkipVerifyTransport\<rparr>,
       \<lparr>Method = ''POST'',
        URL = ''http://localhost/api/alexa/smart_home'',
        Header =
          [(''Authorization'', ''Bearer mock-token''),
           (''Content-Type'', ''application/json'')],
        Body = ''json(test_event)''\<rparr>)] \<and>
   json_Marshal (test_world 200) test_event = Some ''json(test_event)'' \<and>
   event_on_return (HandleRequest (test_world 200) test_handler headerless_event) =
     headerless_event"
proof -
  have sent: "requests (HandleRequest (test_world 200) test_handler test_event) =
     [(\<lparr>Timeout = 10 * Second, Transport = InsecureSkipVerifyTransport\<rparr>,
       \<lparr>Method = ''POST'',
        URL = ''http://localhost/api/alexa/smart_home'',
        Header =
          [(''Authorization'', ''Bearer mock-token''),
           (''Content-Type'', ''application/json'')],
        Body = ''json(test_event)''\<rparr>)]"
    by (simp add: model_defs input_defs)
  show ?thesis
    using HandleRequest_leaves_event [of "test_world 200" test_handler test_event]
      HandleRequest_leaves_event [of "test_world 200" test_handler headerless_event]
    by (simp add: sent)
qed

subsection \<open>C9: a type or token that is not a string\<close>

text \<open>
  C9: \<open>HandleRequest\<close> reads \<open>scope["type"]\<close> and \<open>scope["token"]\<close> with the comma-ok
  form of the type assertion, which yields \<open>""\<close> and does not panic when the value is
  not a string; the function returns one of its two ordinary results. For every
  resolved scope, a \<open>type\<close> that is present and not a string is rejected with
  \<open>only support BearerToken\<close> and no call to the backend, as an absent one is; and with
  the type \<open>BearerToken\<close>, a \<open>token\<close> that is present and not a string is forwarded as
  the empty token is: the request sent carries the fallback token when \<open>Debug\<close> is true
  and an empty credential when it is false.
\<close>

theorem non_string_type_and_token:
  assumes "as_object (map_of event ''directive'') = Some directive"
    and "as_object (map_of directive ''header'') = Some header"
    and "map_of header ''payloadVersion'' = Some (JString ''3'')"
    and "extractScope h directive = Some scope"
  shows "(map_of scope ''type'' = Some v \<and> (\<forall>s. v \<noteq> JString s) \<longrightarrow>
            result (HandleRequest w h event) = Inl ''only support BearerToken'' \<and>
            requests (HandleRequest w h event) = []) \<and>
         (map_of scope ''type'' = Some (JString ''BearerToken'') \<and>
          map_of scope ''token'' = Some v \<and> (\<forall>s. v \<noteq> JString s) \<longrightarrow>
            requests (HandleRequest w h event) =
              (case json_Marshal w event of
                 None \<Rightarrow> []
               | Some body \<Rightarrow>
                   if http_NewRequest_ok w ''POST'' (BaseURL h @ ''/api/alexa/smart_home'')
                   then [(createHTTPClient w h,
                          \<lparr>Method = ''POST'',
                           URL = BaseURL h @ ''/api/alexa/smart_home'',
                           Header =
                             [(''Authorization'',
                               ''Bearer '' @ (if Debug h then LongLivedToken h else '''')),
                              (''Content-Type'', ''application/json'')],
                           Body = body\<rparr>)]
                   else []))"
proof (intro conjI impI)
  assume "map_of scope ''type'' = Some v \<and> (\<forall>s. v \<noteq> JString s)"
  then have "as_string (map_of scope ''type'') = ''''"
    by (cases v) simp_all
  then have "as_string (map_of scope ''type'') \<noteq> ''BearerToken''"
    by simp
  from HandleRequest_type_rejected [OF assms this]
  show "result (HandleRequest w h event) = Inl ''only support BearerToken''"
    and "requests (HandleRequest w h event) = []"
    by simp_all
next
  assume given: "map_of scope ''type'' = Some (JString ''BearerToken'') \<and>
    map_of scope ''token'' = Some v \<and> (\<forall>s. v \<noteq> JString s)"
  then have type: "as_string (map_of scope ''type'') = ''BearerToken''"
    by simp
  from given have token: "as_string (map_of scope ''token'') = ''''"
    by (cases v) simp_all
  show "requests (HandleRequest w h event) =
     (case json_Marshal w event of
        None \<Rightarrow> []
      | Some body \<Rightarrow>
          if http_NewRequest_ok w ''POST'' (BaseURL h @ ''/api/alexa/smart_home'')
          then [(createHTTPClient w h,
                 \<lparr>Method = ''POST'',
                  URL = BaseURL h @ ''/api/alexa/smart_home'',
                  Header =
                    [(''Authorization'',
                      ''Bearer '' @ (if Debug h then LongLivedToken h else '''')),
                     (''Content-Type'', ''application/json'')],
                  Body = body\<rparr>)]
          else [])"
    unfolding HandleRequest_requests [OF assms type] token
    by (simp cong: option.case_cong)
qed

theorem non_string_type_and_token_witness:
  "result (HandleRequest (test_world 200) test_handler (scope_event numeric_type_scope)) =
     Inl ''only support BearerToken'' \<and>
   requests (HandleRequest (test_world 200) test_handler (scope_event numeric_type_scope)) = [] \<and>
   requests (HandleRequest (test_world 200) test_handler (scope_event numeric_token_scope)) =
     [(\<lparr>Timeout = 10 * Second, Transport = InsecureSkipVerifyTransport\<rparr>,
       \<lparr>Method = ''POST'',
        URL = ''http://localhost/api/alexa/smart_home'',
        Header =
          [(''Authorization'', ''Bearer mock-token''),
           (''Content-Type'', ''application/json'')],
        Body = ''json(other event)''\<rparr>)] \<and>
   requests (HandleRequest (test_world 200) plain_handler (scope_event numeric_token_scope)) =
     [(\<lparr>Timeout = 10 * Second, Transport = InsecureSkipVerifyTransport\<rparr>,
       \<lparr>Method = ''POST'',
        URL = ''http://localhost/api/alexa/smart_home'',
        Header =
          [(''Authorization'', ''Bearer ''),
           (''Content-Type'', ''application/json'')],
        Body = ''json(other event)''\<rparr>)]"
proof -
  let ?w = "test_world 200"
  let ?directive = "\<lambda>scope. [(''header'', JObject test_header),
      (''endpoint'', JObject [(''scope'', JObject scope)])]"
  have directive: "as_object (map_of (scope_event scope) ''directive'') = Some (?directive scope)"
    for scope
    by (simp add: scope_event_def)
  have header: "as_object (map_of (?directive scope) ''header'') = Some test_header" for scope
    by simp
  have version: "map_of test_header ''payloadVersion'' = Some (JString ''3'')"
    by (simp add: test_header_def)
  have resolved: "extractScope h (?directive scope) = Some scope" for h scope
    by (simp add: extractScope_def)
  have bad_type: "map_of numeric_type_scope ''type'' = Some (JNumber 3) \<and>
      (\<forall>s. JNumber 3 \<noteq> JString s)"
    by (simp add: numeric_type_scope_def)
  have bad_token: "map_of numeric_token_scope ''type'' = Some (JString ''BearerToken'') \<and>
      map_of numeric_token_scope ''token'' = Some (JNumber 42) \<and>
      (\<forall>s. JNumber 42 \<noteq> JString s)"
    by (simp add: numeric_token_scope_def)
  have rejected:
    "result (HandleRequest ?w test_handler (scope_event numeric_type_scope)) =
       Inl ''only support BearerToken'' \<and>
     requests (HandleRequest ?w test_handler (scope_event numeric_type_scope)) = []"
    using non_string_type_and_token [OF directive header version resolved,
        of numeric_type_scope "JNumber 3" ?w test_handler] bad_type
    by blast
  have forwarded:
    "requests (HandleRequest ?w h (scope_event numeric_token_scope)) =
       (case json_Marshal ?w (scope_event numeric_token_scope) of
          None \<Rightarrow> []
        | Some body \<Rightarrow>
            if http_NewRequest_ok ?w ''POST'' (BaseURL h @ ''/api/alexa/smart_home'')
            then [(createHTTPClient ?w h,
                   \<lparr>Method = ''POST'',
                    URL = BaseURL h @ ''/api/alexa/smart_home'',
                    Header =
                      [(''Authorization'',
                        ''Bearer '' @ (if Debug h then LongLivedToken h else '''')),
                       (''Content-Type'', ''application/json'')],
                    Body = body\<rparr>)]
            else [])" for h
    using non_string_type_and_token [OF directive header version resolved,
        of numeric_token_scope "JNumber 42" ?w h] bad_token
    by blast
  from rejected forwarded [of test_handler] forwarded [of plain_handler] show ?thesis
    by (simp add: createHTTPClient_def input_defs numeric_token_scope_def)
qed

subsection \<open>C10: the fallback token without debug mode\<close>

text \<open>
  C10: for two handlers that differ in \<open>LongLivedToken\<close> only, both with \<open>Debug\<close>
  false, \<open>HandleRequest\<close> gives the same outcome on every event against the same
  backend: the same requests sent and the same result returned.
\<close>

theorem LongLivedToken_unused_without_Debug:
  "\<not> Debug h \<Longrightarrow>
   HandleRequest w (h\<lparr>LongLivedToken := t1\<rparr>) event =
   HandleRequest w (h\<lparr>LongLivedToken := t2\<rparr>) event"
  by (simp add: HandleRequest_not_Debug)

theorem LongLivedToken_unused_without_Debug_witness:
  "\<not> Debug plain_handler \<and>
   HandleRequest (test_world 200) (plain_handler\<lparr>LongLivedToken := ''first-secret''\<rparr>)
     (scope_event empty_token_scope) =
   HandleRequest (test_world 200) (plain_handler\<lparr>LongLivedToken := ''second-secret''\<rparr>)
     (scope_event empty_token_scope)"
proof -
  have off: "\<not> Debug plain_handler"
    by (simp add: plain_handler_def)
  from off LongLivedToken_unused_without_Debug [OF off] show ?thesis
    by simp
qed

end
